theory Spec2Isabelle
  imports Main "HOL-Library.Word"
begin

section \<open>Python values and library calls used by jebio.py\<close>

text \<open>
  Strings are lists of 8-bit characters, read as the code points below 256. File contents
  and HTTP bodies are byte strings of the same type; reading a file in text mode is the
  identity on them.
\<close>

type_synonym bytes = string

text \<open>The exceptions that the modelled statements can raise, by their Python class.\<close>

datatype exn =
    TypeError
  | KeyError string
  | AttributeError
  | IndexError
  | OverflowError
  | OSError
  | ConnectionError
  | JSONDecodeError
  | BadZipFile
  | RuntimeError
  | SystemExit int

text \<open>
  What \<open>r.json()\<close> can return: a decoded JSON document. A Python float is kept as its
  64 bits; a dict is an association list read with \<open>map_of\<close>.
\<close>

datatype json =
    JNull
  | JBool bool
  | JInt int
  | JFloat "64 word"
  | JStr string
  | JArr "json list"
  | JObj "(string \<times> json) list"

definition float_is_zero :: "64 word \<Rightarrow> bool" where
  "float_is_zero b = (b = 0 \<or> b = 0x8000000000000000)"

text \<open>Truth value of a decoded document, as \<open>not r\<close> and \<open>if h0\<close> test it.\<close>

fun truthy :: "json \<Rightarrow> bool" where
  "truthy JNull = False"
| "truthy (JBool b) = b"
| "truthy (JInt n) = (n \<noteq> 0)"
| "truthy (JFloat f) = (\<not> float_is_zero f)"
| "truthy (JStr s) = (s \<noteq> [])"
| "truthy (JArr xs) = (xs \<noteq> [])"
| "truthy (JObj kvs) = (kvs \<noteq> [])"

text \<open>\<open>v != 0\<close>: only numbers (and booleans, which are integers) can equal 0.\<close>

fun ne_zero :: "json \<Rightarrow> bool" where
  "ne_zero (JBool b) = b"
| "ne_zero (JInt n) = (n \<noteq> 0)"
| "ne_zero (JFloat f) = (\<not> float_is_zero f)"
| "ne_zero _ = True"

text \<open>
  \<open>r[k]\<close> with a string key: a dict looks the key up and raises KeyError when it is
  missing; every other decoded value raises TypeError.
\<close>

fun getitem :: "json \<Rightarrow> string \<Rightarrow> exn + json" where
  "getitem (JObj kvs) k = (case map_of kvs k of None \<Rightarrow> Inl (KeyError k) | Some v \<Rightarrow> Inr v)"
| "getitem _ k = Inl TypeError"

text \<open>\<open>r.get(k)\<close>: None for a missing key; only a dict has the method.\<close>

fun dict_get :: "json \<Rightarrow> string \<Rightarrow> exn + json" where
  "dict_get (JObj kvs) k = (case map_of kvs k of None \<Rightarrow> Inr JNull | Some v \<Rightarrow> Inr v)"
| "dict_get _ k = Inl AttributeError"

text \<open>\<open>str.lower()\<close> on code points below 256.\<close>

definition lower_char :: "char \<Rightarrow> char" where
  "lower_char c =
     (let n = (of_char c :: nat)
      in if (65 \<le> n \<and> n \<le> 90) \<or> (192 \<le> n \<and> n \<le> 222 \<and> n \<noteq> 215)
         then char_of (n + 32) else c)"

definition lower :: "string \<Rightarrow> string" where
  "lower s = map lower_char s"

text \<open>\<open>str.isspace()\<close> on code points below 256, and \<open>str.strip()\<close>.\<close>

definition isspace :: "char \<Rightarrow> bool" where
  "isspace c =
     (let n = (of_char c :: nat)
      in (9 \<le> n \<and> n \<le> 13) \<or> (28 \<le> n \<and> n \<le> 32) \<or> n = 133 \<or> n = 160)"

definition strip :: "string \<Rightarrow> string" where
  "strip s = rev (dropWhile isspace (rev (dropWhile isspace s)))"

definition startswith :: "string \<Rightarrow> string \<Rightarrow> bool" where
  "startswith s p = (take (length p) s = p)"

text \<open>\<open>s.split(sep)\<close> for a one-character separator.\<close>

fun split_from :: "char \<Rightarrow> string \<Rightarrow> string \<Rightarrow> string list" where
  "split_from sep cur [] = [cur]"
| "split_from sep cur (c # cs) =
     (if c = sep then cur # split_from sep [] cs else split_from sep (cur @ [c]) cs)"

definition split :: "string \<Rightarrow> char \<Rightarrow> string list" where
  "split s sep = split_from sep [] s"

text \<open>
  \<open>f.readlines()\<close> of a file opened in text mode: the line ends \<open>\n\<close>, \<open>\r\n\<close> and
  \<open>\r\<close> all close a line and are read as \<open>\n\<close>, which stays on the line.
\<close>

abbreviation LF :: char where "LF \<equiv> CHR 0x0A"
abbreviation CR :: char where "CR \<equiv> CHR 0x0D"

fun lines_from :: "string \<Rightarrow> string \<Rightarrow> string list" where
  "lines_from cur [] = (if cur = [] then [] else [cur])"
| "lines_from cur (c # cs) =
     (if c = LF then (cur @ [LF]) # lines_from [] cs
      else if c = CR then
        (case cs of
           [] \<Rightarrow> [cur @ [LF]]
         | d # ds \<Rightarrow> if d = LF then (cur @ [LF]) # lines_from [] ds
                    else (cur @ [LF]) # lines_from [] cs)
      else lines_from (cur @ [c]) cs)"

definition readlines :: "string \<Rightarrow> string list" where
  "readlines text = lines_from [] text"

text \<open>\<open>str(n)\<close> for an integer, as \<open>%s\<close> formats it.\<close>

fun str_nat :: "nat \<Rightarrow> string" where
  "str_nat n =
     (if n < 10 then [char_of (48 + n)]
      else str_nat (n div 10) @ [char_of (48 + n mod 10)])"

declare str_nat.simps [simp del]

definition str_int :: "int \<Rightarrow> string" where
  "str_int i = (if i < 0 then ''-'' @ str_nat (nat (- i)) else str_nat (nat i))"

text \<open>
  The library calls whose results the script only passes on: \<open>hashlib.sha256\<close> with
  \<open>hexdigest\<close>, the reading of a zip archive, and \<open>str\<close> of a non-zero float or a
  non-empty list or dict. They are parameters of the model.

  An archive is the list of its members in directory order. A member is stored under a
  password or in the clear; reading it with a password that is not its own raises
  RuntimeError, and a password given for a member stored in the clear is ignored. Member
  names are taken as the paths that \<open>extractall\<close> writes to.
\<close>

datatype zentry = ZEntry (zname: string) (zpwd: "string option") (zdata: bytes)

record pylib =
  sha256_hexdigest :: "bytes \<Rightarrow> string"
  zip_parse :: "bytes \<Rightarrow> zentry list option"
  str_other :: "json \<Rightarrow> string"

fun py_str :: "pylib \<Rightarrow> json \<Rightarrow> string" where
  "py_str L JNull = ''None''"
| "py_str L (JBool b) = (if b then ''True'' else ''False'')"
| "py_str L (JInt n) = str_int n"
| "py_str L (JStr s) = s"
| "py_str L (JFloat f) =
     (if f = 0 then ''0.0'' else if f = 0x8000000000000000 then ''-0.0''
      else str_other L (JFloat f))"
| "py_str L (JArr xs) = (if xs = [] then ''[]'' else str_other L (JArr xs))"
| "py_str L (JObj kvs) = (if kvs = [] then ''{}'' else str_other L (JObj kvs))"

text \<open>\<open>h0 + '.zip'\<close>: only a string can be extended by a string.\<close>

fun add_str :: "json \<Rightarrow> string \<Rightarrow> exn + string" where
  "add_str (JStr s) t = Inr (s @ t)"
| "add_str _ t = Inl TypeError"

section \<open>The world the script runs in\<close>

text \<open>
  A response of \<open>requests.get\<close>: \<open>body_json\<close> is what \<open>r.json()\<close> decodes from the
  body, None where the body is not JSON and \<open>r.json()\<close> raises. A response is true, and
  \<open>r.ok\<close> holds, unless the status is a 4xx or 5xx.
\<close>

record response =
  status_code :: nat
  content :: bytes
  body_json :: "json option"

definition ok :: "response \<Rightarrow> bool" where
  "ok r = (\<not> (400 \<le> status_code r \<and> status_code r < 600))"

text \<open>
  The state around a call: the environment variables, the global \<open>APIKEY\<close> (empty in the
  source, to be filled in by the user), the remote service as a function from the URL of a
  GET request to its outcome, the URLs requested so far, the regular files by path with the
  paths that can be opened for writing, and the open file descriptors (which are regular
  files, and what reading one gives).
\<close>

record world =
  environ :: "string \<rightharpoonup> string"
  APIKEY :: string
  http_get :: "string \<Rightarrow> exn + response"
  requested :: "string list"
  files :: "string \<rightharpoonup> bytes"
  writable :: "string \<Rightarrow> bool"
  fd_isfile :: "int \<Rightarrow> bool"
  fd_read :: "int \<Rightarrow> exn + bytes"

definition BASE :: string where
  "BASE = ''https://www.pnfsoftware.com/io/api''"

text \<open>\<open>requests.get(url)\<close>: the request is made, and it fails or gives a response.\<close>

definition requests_get :: "string \<Rightarrow> world \<Rightarrow> (exn + response) \<times> world" where
  "requests_get url w = (http_get w url, w\<lparr>requested := requested w @ [url]\<rparr>)"

text \<open>
  \<open>os.path.isfile(p)\<close>: a string is a path; an integer (or a boolean) is a file
  descriptor, which must fit a C int; anything else raises TypeError.
\<close>

definition isfile_fd :: "world \<Rightarrow> int \<Rightarrow> exn + bool" where
  "isfile_fd w n =
     (if n < - 2147483648 \<or> 2147483647 < n then Inl OverflowError else Inr (fd_isfile w n))"

fun isfile :: "world \<Rightarrow> json \<Rightarrow> exn + bool" where
  "isfile w (JStr s) = Inr (files w s \<noteq> None)"
| "isfile w (JInt n) = isfile_fd w n"
| "isfile w (JBool b) = isfile_fd w (if b then 1 else 0)"
| "isfile w _ = Inl TypeError"

text \<open>\<open>open(p, 'rb')\<close> followed by \<open>f.read()\<close>.\<close>

fun read_rb :: "world \<Rightarrow> json \<Rightarrow> exn + bytes" where
  "read_rb w (JStr s) = (case files w s of None \<Rightarrow> Inl OSError | Some d \<Rightarrow> Inr d)"
| "read_rb w (JInt n) = fd_read w n"
| "read_rb w (JBool b) = fd_read w (if b then 1 else 0)"
| "read_rb w _ = Inl TypeError"

text \<open>\<open>open(p, 'wb')\<close> followed by \<open>f.write(d)\<close>: the file is created or replaced.\<close>

definition write_wb :: "string \<Rightarrow> bytes \<Rightarrow> world \<Rightarrow> exn + world" where
  "write_wb p d w =
     (if writable w p then Inr (w\<lparr>files := (files w)(p \<mapsto> d)\<rparr>) else Inl OSError)"

text \<open>\<open>os.unlink(p)\<close>.\<close>

definition unlink :: "string \<Rightarrow> world \<Rightarrow> exn + world" where
  "unlink p w =
     (if files w p = None then Inl OSError else Inr (w\<lparr>files := (files w)(p := None)\<rparr>))"

section \<open>The library functions of jebio.py\<close>

text \<open>
  \<open>raise '...'\<close> with a string raises TypeError, since a string is not an exception.
  Printing under \<open>verbose\<close> changes neither the result nor the state and is left out.
\<close>

definition getApikey :: "world \<Rightarrow> string \<Rightarrow> exn + string" where
  "getApikey w apikey =
     (if apikey \<noteq> [] then Inr apikey
      else case environ w ''JEBIO_APIKEY'' of
             Some v \<Rightarrow> Inr v
           | None \<Rightarrow> if APIKEY w \<noteq> [] then Inr (APIKEY w) else Inl TypeError)"

definition check_url :: "string \<Rightarrow> string \<Rightarrow> string" where
  "check_url key h = BASE @ ''/file/check?apikey='' @ key @ ''&h='' @ h"

definition check :: "string \<Rightarrow> string \<Rightarrow> world \<Rightarrow> (exn + json) \<times> world" where
  "check h apikey w =
     (case getApikey w apikey of
        Inl e \<Rightarrow> (Inl e, w)
      | Inr key \<Rightarrow>
          (case requests_get (check_url key h) w of
             (Inl e, w1) \<Rightarrow> (Inl e, w1)
           | (Inr r, w1) \<Rightarrow>
               (case body_json r of
                  None \<Rightarrow> (Inl JSONDecodeError, w1)
                | Some j \<Rightarrow> (Inr j, w1))))"

text \<open>
  Lines 55 to 63 of download: the file named \<open>h0\<close> is there and its SHA-256 is \<open>h0\<close>.
  The result is the path to return, or None to go on to the download.
\<close>

definition local_copy :: "pylib \<Rightarrow> world \<Rightarrow> json \<Rightarrow> exn + string option" where
  "local_copy L w h0 =
     (if \<not> truthy h0 then Inr None
      else case isfile w h0 of
             Inl e \<Rightarrow> Inl e
           | Inr present \<Rightarrow>
               if \<not> present then Inr None
               else
                 (case read_rb w h0 of
                    Inl e \<Rightarrow> Inl e
                  | Inr d \<Rightarrow>
                      (case h0 of
                         JStr s \<Rightarrow>
                           if lower (sha256_hexdigest L d) = lower s then Inr (Some s)
                           else Inr None
                       | _ \<Rightarrow> Inl AttributeError)))"

text \<open>
  \<open>zipfile.extractall(pwd=b'infected')\<close>: the members are written one after the other;
  the first that cannot be read or written raises, and the files written before it stay.
\<close>

definition read_member :: "string \<Rightarrow> zentry \<Rightarrow> exn + bytes" where
  "read_member pwd m =
     (case zpwd m of
        None \<Rightarrow> Inr (zdata m)
      | Some p \<Rightarrow> if p = pwd then Inr (zdata m) else Inl RuntimeError)"

fun extractall :: "string \<Rightarrow> zentry list \<Rightarrow> world \<Rightarrow> (exn + unit) \<times> world" where
  "extractall pwd [] w = (Inr (), w)"
| "extractall pwd (m # ms) w =
     (case read_member pwd m of
        Inl e \<Rightarrow> (Inl e, w)
      | Inr d \<Rightarrow>
          (case write_wb (zname m) d w of
             Inl e \<Rightarrow> (Inl e, w)
           | Inr w1 \<Rightarrow> extractall pwd ms w1))"


text \<open>
  Lines 83 to 90: \<open>ZipFile(outpath)\<close> reads the archive just saved, all members are
  extracted, the first name is taken, and then the archive is removed.
\<close>

definition extract_zip :: "pylib \<Rightarrow> string \<Rightarrow> world \<Rightarrow> (exn + string) \<times> world" where
  "extract_zip L outpath w =
     (case files w outpath of
        None \<Rightarrow> (Inl OSError, w)
      | Some d \<Rightarrow>
          (case zip_parse L d of
             None \<Rightarrow> (Inl BadZipFile, w)
           | Some ms \<Rightarrow>
               (case extractall ''infected'' ms w of
                  (Inl e, w1) \<Rightarrow> (Inl e, w1)
                | (Inr u, w1) \<Rightarrow>
                    (case ms of
                       [] \<Rightarrow> (Inl IndexError, w1)
                     | m # rest \<Rightarrow>
                         (case unlink outpath w1 of
                            Inl e \<Rightarrow> (Inl e, w1)
                          | Inr w2 \<Rightarrow> (Inr (zname m), w2))))))"

definition download_url :: "string \<Rightarrow> string \<Rightarrow> string" where
  "download_url key h = BASE @ ''/file/download?apikey='' @ key @ ''&h='' @ h"

text \<open>Lines 65 to 92: the download request, the saved archive, the extraction.\<close>

definition fetch ::
  "pylib \<Rightarrow> json \<Rightarrow> string \<Rightarrow> bool \<Rightarrow> world \<Rightarrow> (exn + string option) \<times> world" where
  "fetch L h0 apikey extract w =
     (case getApikey w apikey of
        Inl e \<Rightarrow> (Inl e, w)
      | Inr key \<Rightarrow>
          (case requests_get (download_url key (py_str L h0)) w of
             (Inl e, w1) \<Rightarrow> (Inl e, w1)
           | (Inr r, w1) \<Rightarrow>
               if \<not> ok r \<or> content r = [] then (Inr None, w1)
               else
                 (case add_str h0 ''.zip'' of
                    Inl e \<Rightarrow> (Inl e, w1)
                  | Inr outpath \<Rightarrow>
                      (case write_wb outpath (content r) w1 of
                         Inl e \<Rightarrow> (Inl e, w1)
                       | Inr w2 \<Rightarrow>
                           if extract then
                             (case extract_zip L outpath w2 of
                                (Inl e, w3) \<Rightarrow> (Inl e, w3)
                              | (Inr outpath2, w3) \<Rightarrow> (Inr (Some outpath2), w3))
                           else (Inr (Some outpath), w2)))))"

text \<open>
  download returns the path of the file (Some), or None for a file that is not found.
\<close>

definition download ::
  "pylib \<Rightarrow> string \<Rightarrow> string \<Rightarrow> bool \<Rightarrow> world \<Rightarrow> (exn + string option) \<times> world" where
  "download L h apikey extract w =
     (if h = [] then (Inl TypeError, w)
      else
        (case check h apikey w of
           (Inl e, w1) \<Rightarrow> (Inl e, w1)
         | (Inr r, w1) \<Rightarrow>
             if \<not> truthy r then (Inr None, w1)
             else
               (case getitem r ''code'' of
                  Inl e \<Rightarrow> (Inl e, w1)
                | Inr c \<Rightarrow>
                    if ne_zero c then (Inr None, w1)
                    else
                      (case dict_get r ''sha256hash'' of
                         Inl e \<Rightarrow> (Inl e, w1)
                       | Inr h0 \<Rightarrow>
                           (case local_copy L w1 h0 of
                              Inl e \<Rightarrow> (Inl e, w1)
                            | Inr (Some p) \<Rightarrow> (Inr (Some p), w1)
                            | Inr None \<Rightarrow> fetch L h0 apikey extract w1)))))"

section \<open>The entry list of the command line\<close>

text \<open>
  Lines 131 to 151 of the script, from the options and arguments that \<open>getopt\<close> returns.
  The variable \<open>extract\<close> is the field \<open>do_extract\<close>. An option that is none of the three calls \<open>usage\<close>, which exits with \<open>-1\<close>; a list
  file that cannot be opened raises OSError.
\<close>

definition file_entries :: "string \<Rightarrow> string list" where
  "file_entries text =
     filter (\<lambda>line. line \<noteq> [] \<and> \<not> startswith line ''#'') (map strip (readlines text))"

record cli_vars =
  verbose :: bool
  do_extract :: bool
  hlist :: "string list"

fun read_opts :: "world \<Rightarrow> (string \<times> string) list \<Rightarrow> cli_vars \<Rightarrow> exn + cli_vars" where
  "read_opts w [] st = Inr st"
| "read_opts w ((opt, a) # rest) st =
     (if opt = ''-v'' then read_opts w rest (st\<lparr>verbose := True\<rparr>)
      else if opt = ''-x'' then read_opts w rest (st\<lparr>do_extract := True\<rparr>)
      else if opt = ''-f'' then
        (case files w a of
           None \<Rightarrow> Inl OSError
         | Some text \<Rightarrow> read_opts w rest (st\<lparr>hlist := hlist st @ file_entries text\<rparr>))
      else Inl (SystemExit (- 1)))"

fun extend_args :: "string list \<Rightarrow> string list \<Rightarrow> string list" where
  "extend_args hl [] = hl"
| "extend_args hl (arg # args) = extend_args (hl @ split arg (CHR '','')) args"

text \<open>
  \<open>list(set(hlist))\<close> keeps one copy of each entry, in an order that Python does not
  fix; \<open>remdups\<close> is one such order.
\<close>

definition main_vars :: "world \<Rightarrow> (string \<times> string) list \<Rightarrow> string list \<Rightarrow> exn + cli_vars" where
  "main_vars w opts args =
     (case read_opts w opts \<lparr>verbose = False, do_extract = False, hlist = []\<rparr> of
        Inl e \<Rightarrow> Inl e
      | Inr st \<Rightarrow> Inr (st\<lparr>hlist := remdups (extend_args (hlist st) args)\<rparr>))"

section \<open>A sample service and working directory\<close>

text \<open>
  The service knows the sample \<open>beef\<close> (canonical hash \<open>BEEF\<close>, a two-member archive) and
  the sample \<open>ab12\<close>, of which the working directory holds a copy; it answers \<open>md5x\<close>
  with a found entry that has no canonical hash, \<open>nohash\<close> with code 1, \<open>odd\<close> with an
  object that has no code, and \<open>gone\<close> with status 404 and a JSON body.
\<close>

definition ex_lib :: pylib where
  "ex_lib =
     \<lparr>sha256_hexdigest = (\<lambda>d. if d = ''sample'' then ''ab12'' else ''ffff''),
      zip_parse = (\<lambda>d. if d = ''PK-beef'' then
                          Some [ZEntry ''sample.bin'' (Some ''infected'') ''MZ'',
                                ZEntry ''notes.txt'' None ''hello'']
                        else None),
      str_other = (\<lambda>v. ''?'')\<rparr>"

definition resp_gone :: response where
  "resp_gone = \<lparr>status_code = 404, content = ''{\"code\": 1}'',
                 body_json = Some (JObj [(''code'', JInt 1)])\<rparr>"

definition ex_service :: "string \<Rightarrow> exn + response" where
  "ex_service url =
     (if url = check_url ''k'' ''beef'' then
        Inr \<lparr>status_code = 200, content = ''json'',
             body_json = Some (JObj [(''code'', JInt 0), (''sha256hash'', JStr ''BEEF'')])\<rparr>
      else if url = download_url ''k'' ''BEEF'' then
        Inr \<lparr>status_code = 200, content = ''PK-beef'', body_json = None\<rparr>
      else if url = check_url ''k'' ''ab12'' then
        Inr \<lparr>status_code = 200, content = ''json'',
             body_json = Some (JObj [(''code'', JInt 0), (''sha256hash'', JStr ''AB12'')])\<rparr>
      else if url = check_url ''k'' ''md5x'' then
        Inr \<lparr>status_code = 200, content = ''json'',
             body_json = Some (JObj [(''code'', JInt 0)])\<rparr>
      else if url = download_url ''k'' ''md5x'' \<or> url = download_url ''k'' ''None'' then
        Inr \<lparr>status_code = 200, content = ''PK-md5x'', body_json = None\<rparr>
      else if url = check_url ''k'' ''nohash'' then
        Inr \<lparr>status_code = 200, content = ''json'',
             body_json = Some (JObj [(''code'', JInt 1)])\<rparr>
      else if url = check_url ''k'' ''odd'' then
        Inr \<lparr>status_code = 200, content = ''json'',
             body_json = Some (JObj [(''msg'', JStr ''hi'')])\<rparr>
      else if url = check_url ''k'' ''gone'' then Inr resp_gone
      else Inl ConnectionError)"

definition ex_world :: world where
  "ex_world =
     \<lparr>environ = Map.empty,
      APIKEY = [],
      http_get = ex_service,
      requested = [],
      files = [''AB12'' \<mapsto> ''sample'',
               ''list.txt'' \<mapsto> ''# comment'' @ [LF, LF] @ ''  '' @ [CR, LF] @ ''abc123'' @ [LF]],
      writable = (\<lambda>p. True),
      fd_isfile = (\<lambda>n. False),
      fd_read = (\<lambda>n. Inl OSError)\<rparr>"

section \<open>Credential resolution\<close>

text \<open>
  C5. getApikey returns the explicit key when it is not empty; otherwise the value of the
  environment variable JEBIO_APIKEY when the variable is set (whatever its value);
  otherwise the global APIKEY when it is not empty; and when none of the three is there it
  raises (the TypeError of \<open>raise '...'\<close>) and returns no string.
\<close>

theorem getApikey_precedence:
  "(apikey \<noteq> [] \<longrightarrow> getApikey w apikey = Inr apikey) \<and>
   (apikey = [] \<longrightarrow> environ w ''JEBIO_APIKEY'' = Some v \<longrightarrow> getApikey w apikey = Inr v) \<and>
   (apikey = [] \<longrightarrow> environ w ''JEBIO_APIKEY'' = None \<longrightarrow> APIKEY w \<noteq> [] \<longrightarrow>
      getApikey w apikey = Inr (APIKEY w)) \<and>
   (apikey = [] \<longrightarrow> environ w ''JEBIO_APIKEY'' = None \<longrightarrow> APIKEY w = [] \<longrightarrow>
      getApikey w apikey = Inl TypeError)"
  by (simp add: getApikey_def)

theorem getApikey_precedence_witness:
  "getApikey (ex_world\<lparr>environ := [''JEBIO_APIKEY'' \<mapsto> ''e''], APIKEY := ''g''\<rparr>) ''k'' = Inr ''k'' \<and>
   getApikey (ex_world\<lparr>environ := [''JEBIO_APIKEY'' \<mapsto> ''e''], APIKEY := ''g''\<rparr>) [] = Inr ''e'' \<and>
   getApikey (ex_world\<lparr>APIKEY := ''g''\<rparr>) [] = Inr ''g'' \<and>
   getApikey ex_world [] = Inl TypeError"
proof -
  let ?w = "ex_world\<lparr>environ := [''JEBIO_APIKEY'' \<mapsto> ''e''], APIKEY := ''g''\<rparr>"
  have e: "environ ?w ''JEBIO_APIKEY'' = Some ''e''" by simp
  have n: "environ ex_world ''JEBIO_APIKEY'' = None" by (simp add: ex_world_def)
  have g: "APIKEY (ex_world\<lparr>APIKEY := ''g''\<rparr>) = ''g''" by simp
  have z: "APIKEY ex_world = []" by (simp add: ex_world_def)
  show ?thesis
    using getApikey_precedence [of "''k''" ?w] getApikey_precedence [of "[]" ?w "''e''"]
      getApikey_precedence [of "[]" "ex_world\<lparr>APIKEY := ''g''\<rparr>"]
      getApikey_precedence [of "[]" ex_world] e n g z
    by simp
qed

text \<open>The requests made so far play no part in the resolution.\<close>

lemma getApikey_requested [simp]:
  "getApikey (w\<lparr>requested := rs\<rparr>) apikey = getApikey w apikey"
  by (simp add: getApikey_def split: option.splits)

section \<open>check\<close>

lemma check_returns:
  assumes "check h apikey w = (Inr r, w1)"
  obtains key resp where "getApikey w apikey = Inr key"
    and "http_get w (check_url key h) = Inr resp"
    and "body_json resp = Some r"
    and "w1 = w\<lparr>requested := requested w @ [check_url key h]\<rparr>"
  using assms
  by (auto simp: check_def requests_get_def split: sum.splits option.splits)


lemmas ex_defs = download_def local_copy_def fetch_def extract_zip_def check_def getApikey_def
  requests_get_def write_wb_def unlink_def read_member_def ex_world_def ex_service_def ex_lib_def
  check_url_def download_url_def BASE_def ok_def

text \<open>
  C6, as the claim states it, fails: the sample service answers the check of \<open>gone\<close>
  with status 404 and a JSON body, and check returns the decoded body as a value.
\<close>

theorem check_non2xx_counterexample:
  "http_get ex_world (check_url ''k'' ''gone'') = Inr resp_gone \<and>
   status_code resp_gone = 404 \<and> \<not> ok resp_gone \<and>
   check ''gone'' ''k'' ex_world =
     (Inr (JObj [(''code'', JInt 1)]), ex_world\<lparr>requested := [check_url ''k'' ''gone'']\<rparr>)"
  by (simp add: ex_defs resp_gone_def)

text \<open>
  C6, amended. With a key to use, check makes one GET request, to
  \<open>BASE/file/check?apikey=<key>&h=<h>\<close>, and never a second one. A request that fails
  is raised to the caller with its error; a response whose body is not JSON raises
  JSONDecodeError; a response whose body is JSON gives the decoded body, whatever the
  status code of the response is.
\<close>

theorem check_result:
  assumes "getApikey w apikey = Inr key"
  shows "check_url key h = BASE @ ''/file/check?apikey='' @ key @ ''&h='' @ h \<and>
         snd (check h apikey w) = w\<lparr>requested := requested w @ [check_url key h]\<rparr> \<and>
         (\<forall>e. http_get w (check_url key h) = Inl e \<longrightarrow> fst (check h apikey w) = Inl e) \<and>
         (\<forall>r. http_get w (check_url key h) = Inr r \<longrightarrow>
              fst (check h apikey w) =
                (case body_json r of None \<Rightarrow> Inl JSONDecodeError | Some j \<Rightarrow> Inr j))"
  using assms
  by (auto simp: check_def requests_get_def check_url_def split: sum.splits option.splits)

theorem check_result_witness:
  "getApikey ex_world ''k'' = Inr ''k'' \<and>
   check ''gone'' ''k'' ex_world =
     (Inr (JObj [(''code'', JInt 1)]), ex_world\<lparr>requested := [check_url ''k'' ''gone'']\<rparr>) \<and>
   check ''other'' ''k'' ex_world =
     (Inl ConnectionError, ex_world\<lparr>requested := [check_url ''k'' ''other'']\<rparr>) \<and>
   check ''BEEF'' ''k'' (ex_world\<lparr>http_get := (\<lambda>u. ex_service (download_url ''k'' ''BEEF''))\<rparr>) =
     (Inl JSONDecodeError,
      ex_world\<lparr>http_get := (\<lambda>u. ex_service (download_url ''k'' ''BEEF'')),
        requested := [check_url ''k'' ''BEEF'']\<rparr>)"
proof -
  let ?w = "ex_world\<lparr>http_get := (\<lambda>u. ex_service (download_url ''k'' ''BEEF''))\<rparr>"
  have k: "getApikey ex_world ''k'' = Inr ''k''" and k': "getApikey ?w ''k'' = Inr ''k''"
    by (simp_all add: getApikey_def)
  have 1: "http_get ex_world (check_url ''k'' ''gone'') = Inr resp_gone"
    and 2: "http_get ex_world (check_url ''k'' ''other'') = Inl ConnectionError"
    and 3: "http_get ?w (check_url ''k'' ''BEEF'') =
              Inr \<lparr>status_code = 200, content = ''PK-beef'', body_json = None\<rparr>"
    by (simp_all add: ex_world_def ex_service_def check_url_def download_url_def BASE_def)
  have r: "requested ex_world = []" by (simp add: ex_world_def)
  show ?thesis
    using check_result [OF k, of "''gone''"] check_result [OF k, of "''other''"]
      check_result [OF k', of "''BEEF''"] k 1 2 3 r
    by (simp add: prod_eq_iff resp_gone_def)
qed

section \<open>download: the hash and the check result\<close>

text \<open>
  C8. With an empty hash download raises at once: the result is the TypeError of
  \<open>raise '...'\<close>, whatever the key, the environment and the service are, and the state is
  the one before the call, so that no key was looked up and no request was made.
\<close>

theorem download_empty_hash:
  "download L [] apikey ex w = (Inl TypeError, w)"
  by (simp add: download_def)

text \<open>
  C2. For a hash (a string that is not empty) whose check returns a result that is false
  in Python (null, an empty object, ...) or that has a code different from 0, download
  returns None and raises nothing; the state after the call is the state before it with
  the check request as the only request added, so no download request was made.
\<close>

theorem download_not_found:
  assumes "h \<noteq> []"
    and "check h apikey w = (Inr r, w1)"
    and "\<not> truthy r \<or> (\<exists>c. getitem r ''code'' = Inr c \<and> ne_zero c)"
  shows "download L h apikey ex w = (Inr None, w1) \<and>
         (\<exists>key. w1 = w\<lparr>requested := requested w @ [check_url key h]\<rparr>)"
proof -
  from assms(2) obtain key where "w1 = w\<lparr>requested := requested w @ [check_url key h]\<rparr>"
    by (rule check_returns)
  moreover from assms have "download L h apikey ex w = (Inr None, w1)"
    by (auto simp: download_def)
  ultimately show ?thesis by blast
qed

theorem download_not_found_witness:
  "check ''nohash'' ''k'' ex_world =
     (Inr (JObj [(''code'', JInt 1)]), ex_world\<lparr>requested := [check_url ''k'' ''nohash'']\<rparr>) \<and>
   download ex_lib ''nohash'' ''k'' True ex_world =
     (Inr None, ex_world\<lparr>requested := [check_url ''k'' ''nohash'']\<rparr>)"
proof -
  have c: "check ''nohash'' ''k'' ex_world =
     (Inr (JObj [(''code'', JInt 1)]), ex_world\<lparr>requested := [check_url ''k'' ''nohash'']\<rparr>)"
    by (simp add: ex_defs)
  have g: "\<not> truthy (JObj [(''code'', JInt 1)]) \<or>
     (\<exists>c. getitem (JObj [(''code'', JInt 1)]) ''code'' = Inr c \<and> ne_zero c)"
    by simp
  from download_not_found [OF _ c g, of ex_lib True] c show ?thesis by simp
qed

text \<open>
  C9. When the check returns an object that is not empty and has no \<open>code\<close> key,
  download raises the KeyError of the failed lookup \<open>r['code']\<close>; it does not return
  None.
\<close>

theorem download_missing_code:
  assumes "h \<noteq> []"
    and "check h apikey w = (Inr (JObj kvs), w1)"
    and "kvs \<noteq> []"
    and "map_of kvs ''code'' = None"
  shows "download L h apikey ex w = (Inl (KeyError ''code''), w1)"
  using assms by (simp add: download_def)

theorem download_missing_code_witness:
  "check ''odd'' ''k'' ex_world =
     (Inr (JObj [(''msg'', JStr ''hi'')]), ex_world\<lparr>requested := [check_url ''k'' ''odd'']\<rparr>) \<and>
   download ex_lib ''odd'' ''k'' False ex_world =
     (Inl (KeyError ''code''), ex_world\<lparr>requested := [check_url ''k'' ''odd'']\<rparr>)"
proof -
  have c: "check ''odd'' ''k'' ex_world =
     (Inr (JObj [(''msg'', JStr ''hi'')]), ex_world\<lparr>requested := [check_url ''k'' ''odd'']\<rparr>)"
    by (simp add: ex_defs)
  from download_missing_code [OF _ c, of ex_lib False] c show ?thesis by simp
qed

section \<open>download: the local copy\<close>

lemma getitem_truthy: "getitem r k = Inr c \<Longrightarrow> truthy r"
  by (cases r) (auto split: option.splits)

text \<open>
  C3. Let the check of \<open>h\<close> return a result with code 0 and the canonical hash \<open>h0\<close>,
  and let the working directory hold a file named \<open>h0\<close> (so \<open>h0\<close> is not the empty name)
  whose SHA-256, in hexadecimal, equals \<open>h0\<close> when both are put in lower case. Then
  download returns the path \<open>h0\<close>; the files are the ones before the call, and the check
  request is the only request made.
\<close>

theorem download_local_copy:
  assumes "h \<noteq> []"
    and "check h apikey w = (Inr r, w1)"
    and "getitem r ''code'' = Inr c" and "\<not> ne_zero c"
    and "dict_get r ''sha256hash'' = Inr (JStr h0)"
    and "h0 \<noteq> []" and "files w h0 = Some d"
    and "lower (sha256_hexdigest L d) = lower h0"
  shows "download L h apikey ex w = (Inr (Some h0), w1) \<and> files w1 = files w \<and>
         (\<exists>key. requested w1 = requested w @ [check_url key h])"
proof -
  from assms(2) obtain key where w1: "w1 = w\<lparr>requested := requested w @ [check_url key h]\<rparr>"
    by (rule check_returns)
  then have f: "files w1 h0 = Some d" using assms(7) by simp
  have "local_copy L w1 (JStr h0) = Inr (Some h0)"
    using assms(6,8) f by (simp add: local_copy_def)
  then have "download L h apikey ex w = (Inr (Some h0), w1)"
    using assms(1-5) getitem_truthy [OF assms(3)] by (simp add: download_def)
  with w1 show ?thesis by auto
qed

theorem download_local_copy_witness:
  "download ex_lib ''ab12'' ''k'' True ex_world =
     (Inr (Some ''AB12''), ex_world\<lparr>requested := [check_url ''k'' ''ab12'']\<rparr>) \<and>
   files ex_world ''AB12'' = Some ''sample'' \<and>
   lower (sha256_hexdigest ex_lib ''sample'') = lower ''AB12''"
proof -
  let ?r = "JObj [(''code'', JInt 0), (''sha256hash'', JStr ''AB12'')]"
  have c: "check ''ab12'' ''k'' ex_world =
     (Inr ?r, ex_world\<lparr>requested := [check_url ''k'' ''ab12'']\<rparr>)"
    by (simp add: ex_defs)
  have g: "getitem ?r ''code'' = Inr (JInt 0)" and z: "\<not> ne_zero (JInt 0)"
    and s: "dict_get ?r ''sha256hash'' = Inr (JStr ''AB12'')" by simp_all
  have f: "files ex_world ''AB12'' = Some ''sample''" by (simp add: ex_world_def)
  have l: "lower (sha256_hexdigest ex_lib ''sample'') = lower ''AB12''"
    by code_simp
  from download_local_copy [OF _ c g z s _ f l, of True] f l show ?thesis by simp
qed

section \<open>download: a found entry without canonical hash\<close>

text \<open>
  When the found entry has no \<open>sha256hash\<close>, \<open>h0\<close> is None: the download request asks
  for \<open>h=None\<close>, and the call ends with None or with an error, never with a path.
\<close>

lemma fetch_JNull:
  assumes "getApikey w apikey = Inr key"
  shows "snd (fetch L JNull apikey ex w) =
           w\<lparr>requested := requested w @ [download_url key ''None'']\<rparr> \<and>
         (fst (fetch L JNull apikey ex w) = Inr None \<or>
          (\<exists>e. fst (fetch L JNull apikey ex w) = Inl e))"
  using assms by (auto simp: fetch_def requests_get_def split: sum.splits)

lemma download_without_sha256hash:
  assumes "h \<noteq> []" and "check h apikey w = (Inr (JObj kvs), w1)"
    and "map_of kvs ''code'' = Some c" and "\<not> ne_zero c"
    and "map_of kvs ''sha256hash'' = None"
  shows "\<exists>key. getApikey w apikey = Inr key \<and>
           snd (download L h apikey ex w) =
             w\<lparr>requested := requested w @ [check_url key h, download_url key ''None'']\<rparr> \<and>
           (fst (download L h apikey ex w) = Inr None \<or>
            (\<exists>e. fst (download L h apikey ex w) = Inl e))"
proof -
  from assms(2) obtain key where k: "getApikey w apikey = Inr key"
    and w1: "w1 = w\<lparr>requested := requested w @ [check_url key h]\<rparr>"
    by (rule check_returns)
  from assms(3) have ne: "kvs \<noteq> []" by auto
  have d: "download L h apikey ex w = fetch L JNull apikey ex w1"
    using assms ne by (simp add: download_def local_copy_def)
  from k w1 have "getApikey w1 apikey = Inr key" by simp
  from fetch_JNull [OF this, of L ex] d w1 k show ?thesis by auto
qed

text \<open>
  C1. The sample service finds \<open>md5x\<close> (code 0) without a \<open>sha256hash\<close>, and it would
  answer a download request for \<open>md5x\<close>. download asks for \<open>h=None\<close> instead, and then
  raises TypeError at \<open>h0 + '.zip'\<close>: nothing is saved.
\<close>

theorem download_no_canonical_hash:
  "download ex_lib ''md5x'' ''k'' False ex_world =
     (Inl TypeError,
      ex_world\<lparr>requested := [check_url ''k'' ''md5x'', download_url ''k'' ''None'']\<rparr>)"
  by (simp add: ex_defs)

section \<open>download: extraction\<close>


















section \<open>The entry list of the command line: what it holds\<close>

text \<open>
  \<open>split\<close> cuts at every separator and nowhere else: no piece holds the separator, and
  the pieces with the separator put before each give back the string.
\<close>

lemma split_from_join:
  "concat (map ((#) sep) (split_from sep cur s)) = sep # cur @ s"
  by (induction s arbitrary: cur) simp_all

lemma split_from_pieces:
  "sep \<notin> set cur \<Longrightarrow> piece \<in> set (split_from sep cur s) \<Longrightarrow> sep \<notin> set piece"
proof (induction s arbitrary: cur)
  case Nil
  then show ?case by simp
next
  case (Cons c s)
  show ?case
  proof (cases "c = sep")
    case True
    with Cons.prems have "piece = cur \<or> piece \<in> set (split_from sep [] s)" by simp
    then show ?thesis using Cons.prems(1) Cons.IH [of "[]"] by auto
  next
    case False
    with Cons.prems have "piece \<in> set (split_from sep (cur @ [c]) s)" by simp
    moreover from False Cons.prems(1) have "sep \<notin> set (cur @ [c])" by auto
    ultimately show ?thesis by (rule Cons.IH [rotated])
  qed
qed

lemma split_join: "concat (map ((#) sep) (split s sep)) = sep # s"
  by (simp add: split_def split_from_join)

lemma split_pieces: "piece \<in> set (split s sep) \<Longrightarrow> sep \<notin> set piece"
  unfolding split_def by (rule split_from_pieces) simp_all




text \<open>The entry list is computed whenever the options are known and the list files exist.\<close>

lemma read_opts_returns:
  "\<forall>(opt, a) \<in> set opts. opt = ''-v'' \<or> opt = ''-x'' \<or> (opt = ''-f'' \<and> files w a \<noteq> None) \<Longrightarrow>
     \<exists>st'. read_opts w opts st = Inr st'"
  by (induction opts arbitrary: st) (auto split: option.splits)

lemma main_vars_returns:
  assumes "\<forall>(opt, a) \<in> set opts.
             opt = ''-v'' \<or> opt = ''-x'' \<or> (opt = ''-f'' \<and> files w a \<noteq> None)"
  shows "\<exists>st. main_vars w opts args = Inr st"
  using read_opts_returns [OF assms, of "\<lparr>verbose = False, do_extract = False, hlist = []\<rparr>"]
  by (auto simp: main_vars_def)



text \<open>
  With positional arguments as well: they are cut at the commas, and an entry given twice
  is kept once.
\<close>

lemma main_vars_list_and_args:
  "main_vars ex_world [(''-x'', []), (''-f'', ''list.txt'')] [''abc123,ff'', ''00''] =
     Inr \<lparr>verbose = False, do_extract = True, hlist = [''abc123'', ''ff'', ''00'']\<rparr>"
  by code_simp

end
